theory Spec2Isabelle
  imports Complex_Main
begin

section \<open>ALU grade calculator: grading scale, assignments, GPA aggregation\<close>

text \<open>
  A shallow embedding of the classes \<^verbatim>\<open>GradingScale\<close>, \<^verbatim>\<open>Assignment\<close> and
  \<^verbatim>\<open>GPACalculator\<close> of the grade calculator.

  Numbers. The program computes on Python floats, IEEE 754 binary64. Every finite
  float is a rational number, so percentages, weights, grades and GPA values are values
  of type \<open>rat\<close>. The arithmetic is a parameter of the model (\<open>arith\<close>): every product,
  quotient and sum of the source is followed by the rounding of the arithmetic, and
  every decimal literal that is not a whole number is the rounding of its decimal value.
  \<open>binary64\<close> is the arithmetic of the program; \<open>exact\<close> rounds nothing. Comparisons,
  \<^verbatim>\<open>max\<close> and \<^verbatim>\<open>min\<close> are exact on floats. Infinities and NaN are not values of the
  model: an overflow takes a magnitude of \<open>2\<^sup>1\<^sup>0\<^sup>2\<^sup>4\<close>, out of reach of sums of weights and
  points of at most 100 each.

  Dictionaries. A Python \<^verbatim>\<open>dict\<close> iterates in insertion order, and the grade lookup
  depends on that order, so \<^verbatim>\<open>self.scale\<close> is an association list with distinct keys.

  Exceptions. A function that may raise returns \<open>error + 'a\<close>. A method that mutates
  \<^verbatim>\<open>self\<close> before it raises returns the outcome together with the object as the
  exception leaves it.

  Output. Calls of \<^verbatim>\<open>print\<close> are not modelled, except the coverage warning of
  \<^verbatim>\<open>_validate_scale\<close> (a flag of its result) and the line that tells a handled exception
  of \<^verbatim>\<open>import_scale\<close> from success (its outcome).
\<close>

subsection \<open>Float arithmetic\<close>

text \<open>The number of binary digits of a positive integer; 0 for the others.\<close>

function bits :: "int \<Rightarrow> int" where
  "bits n = (if n \<le> 0 then 0 else 1 + bits (n div 2))"
  by pat_completeness auto
termination
  by (relation "measure nat") auto

declare bits.simps [simp del]

text \<open>For \<open>y > 0\<close>, the integer \<open>e\<close> with \<open>2\<^sup>e \<le> y < 2\<^sup>e\<^sup>+\<^sup>1\<close>.\<close>

definition ilog2 :: "rat \<Rightarrow> int" where
  "ilog2 y = (if 1 \<le> y then bits \<lfloor>y\<rfloor> - 1 else - bits (\<lceil>1 / y\<rceil> - 1))"

definition pow2 :: "int \<Rightarrow> rat" where
  "pow2 n = (if 0 \<le> n then 2 ^ nat n else 1 / 2 ^ nat (- n))"

text \<open>Rounding to the nearest integer, a tie to the even one.\<close>

definition round_half_even :: "rat \<Rightarrow> int" where
  "round_half_even x =
     (let f = \<lfloor>x\<rfloor>; r = x - of_int f
      in if r < 1 / 2 then f else if 1 / 2 < r then f + 1 else if even f then f else f + 1)"

text \<open>
  The binary64 value nearest to \<open>x\<close>, ties to even: 53 significant bits, and below
  \<open>2\<^sup>-\<^sup>1\<^sup>0\<^sup>2\<^sup>2\<close> the fixed spacing \<open>2\<^sup>-\<^sup>1\<^sup>0\<^sup>7\<^sup>4\<close> of the subnormal numbers.
\<close>

definition round64 :: "rat \<Rightarrow> rat" where
  "round64 x =
     (if x = 0 then 0
      else (let e = max (ilog2 \<bar>x\<bar>) (- 1022); q = pow2 (e - 52)
            in of_int (round_half_even (x / q)) * q))"

text \<open>
  An arithmetic: \<open>rnd\<close> is applied to the exact result of each operation and to each
  decimal literal, \<open>fsum\<close> is the builtin \<^verbatim>\<open>sum\<close> on a sequence of floats.
\<close>

record arith =
  rnd :: "rat \<Rightarrow> rat"
  fsum :: "rat list \<Rightarrow> rat"

definition exact :: arith where
  "exact = \<lparr>rnd = (\<lambda>x. x), fsum = sum_list\<rparr>"

text \<open>
  \<^verbatim>\<open>sum\<close> adds from the left, starting at 0, rounding each addition. (From version 3.12
  CPython also carries a compensation term for floats; on sequences of one or two
  elements the result is the same.)
\<close>

definition binary64 :: arith where
  "binary64 = \<lparr>rnd = round64, fsum = foldl (\<lambda>total x. round64 (total + x)) 0\<rparr>"

subsection \<open>Errors\<close>

datatype value_error =
    InvalidRange string
  | InvalidGPA string
  | InvalidStructure string
  | InvalidName
  | InvalidWeight
  | InvalidGrade

datatype error =
    ValueError value_error
  | JSONDecodeError
  | IndexError
  | TypeError
  | AttributeError

subsection \<open>GradingScale\<close>

text \<open>One value of \<^verbatim>\<open>self.scale\<close>: \<^verbatim>\<open>{'min': .., 'max': .., 'gpa': ..}\<close>.\<close>

record band =
  min_b :: rat
  max_b :: rat
  gpa_b :: rat

type_synonym scale_dict = "(string \<times> band) list"

record grading_scale =
  scale :: scale_dict
  max_gpa :: rat
  passing_threshold :: rat

definition default_scale :: "arith \<Rightarrow> scale_dict" where
  "default_scale ar =
    [(''A+'', \<lparr>min_b = 98, max_b = 100, gpa_b = 5\<rparr>),
     (''A'',  \<lparr>min_b = rnd ar (8999 / 100), max_b = 97, gpa_b = rnd ar (48 / 10)\<rparr>),
     (''A-'', \<lparr>min_b = 80, max_b = rnd ar (9699 / 100), gpa_b = rnd ar (47 / 10)\<rparr>),
     (''B+'', \<lparr>min_b = 75, max_b = rnd ar (7999 / 100), gpa_b = rnd ar (43 / 10)\<rparr>),
     (''B'',  \<lparr>min_b = 70, max_b = rnd ar (7499 / 100), gpa_b = 4\<rparr>),
     (''B-'', \<lparr>min_b = 65, max_b = rnd ar (6999 / 100), gpa_b = rnd ar (37 / 10)\<rparr>),
     (''C+'', \<lparr>min_b = 60, max_b = rnd ar (6499 / 100), gpa_b = rnd ar (33 / 10)\<rparr>),
     (''C'',  \<lparr>min_b = 55, max_b = rnd ar (5999 / 100), gpa_b = 3\<rparr>),
     (''C-'', \<lparr>min_b = 50, max_b = rnd ar (5499 / 100), gpa_b = rnd ar (27 / 10)\<rparr>),
     (''D'',  \<lparr>min_b = 40, max_b = rnd ar (4999 / 100), gpa_b = 2\<rparr>),
     (''F'',  \<lparr>min_b = 0, max_b = rnd ar (3999 / 100), gpa_b = 1\<rparr>)]"

text \<open>
  The loop of \<^verbatim>\<open>_validate_scale\<close>: the first band, in dictionary order, with
  \<^verbatim>\<open>min > max\<close> or with a GPA outside \<^verbatim>\<open>[0, max_gpa]\<close> raises.
\<close>

fun check_bands :: "rat \<Rightarrow> scale_dict \<Rightarrow> error option" where
  "check_bands mg [] = None"
| "check_bands mg ((letter, data) # rest) =
     (if min_b data > max_b data then Some (ValueError (InvalidRange letter))
      else if gpa_b data > mg \<or> gpa_b data < 0 then Some (ValueError (InvalidGPA letter))
      else check_bands mg rest)"

definition all_ranges_of :: "scale_dict \<Rightarrow> (rat \<times> rat \<times> string) list" where
  "all_ranges_of sc = sort_key fst (map (\<lambda>(letter, data). (min_b data, max_b data, letter)) sc)"

text \<open>
  \<^verbatim>\<open>_validate_scale\<close>. \<open>Inr w\<close> is a normal return, \<open>w\<close> telling whether the coverage
  warning was printed. \<^verbatim>\<open>all_ranges[0]\<close> on an empty scale raises \<^verbatim>\<open>IndexError\<close>.
\<close>

definition validate_scale :: "grading_scale \<Rightarrow> error + bool" where
  "validate_scale self =
     (case check_bands (max_gpa self) (scale self) of
        Some e \<Rightarrow> Inl e
      | None \<Rightarrow>
          (case all_ranges_of (scale self) of
             [] \<Rightarrow> Inl IndexError
           | r # rs \<Rightarrow> Inr (fst r \<noteq> 0 \<or> fst (snd (last (r # rs))) \<noteq> 100)))"

text \<open>
  \<^verbatim>\<open>GradingScale.__init__\<close> assigns the three attributes (\<open>initial_scale\<close>) and then
  validates the object.
\<close>

definition initial_scale :: "arith \<Rightarrow> grading_scale" where
  "initial_scale ar = \<lparr>scale = default_scale ar, max_gpa = 5, passing_threshold = 50\<rparr>"

definition GradingScale_init :: "arith \<Rightarrow> error + grading_scale" where
  "GradingScale_init ar =
     (let self = initial_scale ar
      in case validate_scale self of Inl e \<Rightarrow> Inl e | Inr w \<Rightarrow> Inr self)"

text \<open>The \<^verbatim>\<open>for\<close> loop of \<^verbatim>\<open>percentage_to_grade\<close>: the first band that contains the value.\<close>

fun find_grade :: "scale_dict \<Rightarrow> rat \<Rightarrow> (rat \<times> string) option" where
  "find_grade [] percentage = None"
| "find_grade ((letter, data) # rest) percentage =
     (if min_b data \<le> percentage \<and> percentage \<le> max_b data then Some (gpa_b data, letter)
      else find_grade rest percentage)"

definition percentage_to_grade :: "grading_scale \<Rightarrow> rat \<Rightarrow> rat \<times> string" where
  "percentage_to_grade self percentage =
     (let percentage = max 0 (min 100 percentage)
      in case find_grade (scale self) percentage of
           Some r \<Rightarrow> r
         | None \<Rightarrow> (1, ''F''))"

definition is_passing :: "grading_scale \<Rightarrow> rat \<Rightarrow> bool" where
  "is_passing self percentage = (percentage \<ge> passing_threshold self)"

text \<open>
  \<^verbatim>\<open>self.scale[letter] = ...\<close>: an existing key keeps its place in the dictionary, a new
  key goes to the end.
\<close>

fun setitem :: "scale_dict \<Rightarrow> string \<Rightarrow> band \<Rightarrow> scale_dict" where
  "setitem [] k v = [(k, v)]"
| "setitem ((k', v') # rest) k v =
     (if k' = k then (k, v) # rest else (k', v') # setitem rest k v)"

text \<open>
  \<^verbatim>\<open>GradingScale.update_grade\<close> stores the band, then validates. The second component
  is the object after the call, also when the call raises.
\<close>

definition GradingScale_update_grade ::
  "grading_scale \<Rightarrow> string \<Rightarrow> rat \<Rightarrow> rat \<Rightarrow> rat \<Rightarrow> (error + bool) \<times> grading_scale" where
  "GradingScale_update_grade self letter min_score max_score gpa_v =
     (let self' = self\<lparr>scale := setitem (scale self) letter
                          \<lparr>min_b = min_score, max_b = max_score, gpa_b = gpa_v\<rparr>\<rparr>
      in (validate_scale self', self'))"

subsection \<open>Importing a scale\<close>

text \<open>
  What \<^verbatim>\<open>json.loads\<close> returns: \<^verbatim>\<open>None\<close>, a \<^verbatim>\<open>bool\<close>, a number, a \<^verbatim>\<open>str\<close>, a \<^verbatim>\<open>list\<close> or a
  \<^verbatim>\<open>dict\<close> (keys distinct, in document order).
\<close>

datatype json =
    JNull
  | JBool bool
  | JNumber rat
  | JString string
  | JArray "json list"
  | JObject "(string \<times> json) list"

text \<open>What \<^verbatim>\<open>json.loads(json_str)\<close> does: it raises \<^verbatim>\<open>JSONDecodeError\<close>, or returns a value.\<close>

datatype loaded =
    DecodeError
  | Loaded json

text \<open>A value that \<^verbatim>\<open>json.loads\<close> returns as a \<^verbatim>\<open>dict\<close>.\<close>

fun is_object :: "json \<Rightarrow> bool" where
  "is_object (JObject kvs) = True"
| "is_object v = False"

text \<open>\<^verbatim>\<open>sub in s\<close> on strings.\<close>

fun is_substring :: "string \<Rightarrow> string \<Rightarrow> bool" where
  "is_substring sub [] = (sub = [])"
| "is_substring sub (c # cs) = (take (length sub) (c # cs) = sub \<or> is_substring sub cs)"

text \<open>
  \<^verbatim>\<open>key in data\<close>: a key of a dictionary, an element of a list, a substring of a string;
  on \<^verbatim>\<open>None\<close>, a \<^verbatim>\<open>bool\<close> or a number it raises \<^verbatim>\<open>TypeError\<close>.
\<close>

fun key_in :: "string \<Rightarrow> json \<Rightarrow> error + bool" where
  "key_in key (JObject kvs) = Inr (key \<in> set (map fst kvs))"
| "key_in key (JArray xs) = Inr (JString key \<in> set xs)"
| "key_in key (JString s) = Inr (is_substring key s)"
| "key_in key JNull = Inl TypeError"
| "key_in key (JBool b) = Inl TypeError"
| "key_in key (JNumber r) = Inl TypeError"

text \<open>\<^verbatim>\<open>all(key in data for key in keys)\<close>: it stops at the first key that is missing.\<close>

fun all_keys_in :: "string list \<Rightarrow> json \<Rightarrow> error + bool" where
  "all_keys_in [] data = Inr True"
| "all_keys_in (key # keys) data =
     (case key_in key data of
        Inl e \<Rightarrow> Inl e
      | Inr b \<Rightarrow> if b then all_keys_in keys data else Inr False)"

text \<open>The loop under \<^verbatim>\<open># Validate structure\<close>.\<close>

fun check_structure :: "(string \<times> json) list \<Rightarrow> error option" where
  "check_structure [] = None"
| "check_structure ((letter, data) # rest) =
     (case all_keys_in [''min'', ''max'', ''gpa''] data of
        Inl e \<Rightarrow> Some e
      | Inr b \<Rightarrow> if \<not> b then Some (ValueError (InvalidStructure letter))
                else check_structure rest)"

text \<open>
  The imported dictionary as a scale of numeric bands: every band is an object whose
  \<^verbatim>\<open>min\<close>, \<^verbatim>\<open>max\<close> and \<^verbatim>\<open>gpa\<close> are numbers. \<open>None\<close>: some band is not.
\<close>

fun number_of :: "json \<Rightarrow> rat option" where
  "number_of (JNumber r) = Some r"
| "number_of v = None"

fun field_of :: "json \<Rightarrow> string \<Rightarrow> rat option" where
  "field_of (JObject kvs) key = (case map_of kvs key of None \<Rightarrow> None | Some v \<Rightarrow> number_of v)"
| "field_of v key = None"

definition band_of :: "json \<Rightarrow> band option" where
  "band_of data =
     (case (field_of data ''min'', field_of data ''max'', field_of data ''gpa'') of
        (Some mn, Some mx, Some g) \<Rightarrow> Some \<lparr>min_b = mn, max_b = mx, gpa_b = g\<rparr>
      | _ \<Rightarrow> None)"

fun scale_of :: "(string \<times> json) list \<Rightarrow> scale_dict option" where
  "scale_of [] = Some []"
| "scale_of ((letter, data) # rest) =
     (case band_of data of
        None \<Rightarrow> None
      | Some b \<Rightarrow> (case scale_of rest of None \<Rightarrow> None | Some sc \<Rightarrow> Some ((letter, b) # sc)))"

text \<open>
  How a call of \<^verbatim>\<open>import_scale\<close> ends: it prints the success line (with or without the
  coverage warning before it), it catches the exception and prints the error line, or an
  exception that the \<^verbatim>\<open>except (json.JSONDecodeError, ValueError)\<close> clause does not name
  leaves the method.
\<close>

datatype import_outcome =
    Imported bool
  | Reported error
  | Escaped error

definition handled :: "error \<Rightarrow> bool" where
  "handled e =
     (case e of
        ValueError v \<Rightarrow> True
      | JSONDecodeError \<Rightarrow> True
      | IndexError \<Rightarrow> False
      | TypeError \<Rightarrow> False
      | AttributeError \<Rightarrow> False)"

definition leave :: "error \<Rightarrow> import_outcome" where
  "leave e = (if handled e then Reported e else Escaped e)"

text \<open>
  \<^verbatim>\<open>import_scale\<close>, on what \<^verbatim>\<open>json.loads\<close> did. A value that is not a dictionary has no
  \<^verbatim>\<open>items\<close>: \<^verbatim>\<open>AttributeError\<close>. After the structure check the dictionary becomes
  \<^verbatim>\<open>self.scale\<close>, and then the scale is validated.

  The result is \<open>None\<close> where the model stops: the dictionary has passed the structure
  check and a band of it is not an object with numeric \<^verbatim>\<open>min\<close>, \<^verbatim>\<open>max\<close> and \<^verbatim>\<open>gpa\<close>. The
  object then holds a scale that \<open>grading_scale\<close> cannot hold, and the validation compares
  strings, lists or \<^verbatim>\<open>None\<close> by the rules of Python.
\<close>

definition import_scale ::
  "grading_scale \<Rightarrow> loaded \<Rightarrow> (import_outcome \<times> grading_scale) option" where
  "import_scale self json_str =
     (case json_str of
        DecodeError \<Rightarrow> Some (Reported JSONDecodeError, self)
      | Loaded (JObject imported_scale) \<Rightarrow>
          (case check_structure imported_scale of
             Some e \<Rightarrow> Some (leave e, self)
           | None \<Rightarrow>
               (case scale_of imported_scale of
                  None \<Rightarrow> None
                | Some sc \<Rightarrow>
                    (let self' = self\<lparr>scale := sc\<rparr>
                     in case validate_scale self' of
                          Inr w \<Rightarrow> Some (Imported w, self')
                        | Inl e \<Rightarrow> Some (leave e, self'))))
      | Loaded other \<Rightarrow> Some (leave AttributeError, self))"

subsection \<open>Assignment\<close>

text \<open>A Python \<^verbatim>\<open>str\<close> that is trimmed: the list of its Unicode code points.\<close>

type_synonym str = "nat list"

definition code_points :: "string \<Rightarrow> str" where
  "code_points s = map of_char s"

record assignment =
  name :: str
  weight :: rat
  grade :: rat
  points :: rat

text \<open>
  The characters that \<^verbatim>\<open>str.strip()\<close> removes, those for which \<^verbatim>\<open>str.isspace()\<close> holds:
  U+0009 to U+000D, U+001C to U+0020, U+0085, U+00A0, U+1680, U+2000 to U+200A, U+2028,
  U+2029, U+202F, U+205F and U+3000.
\<close>

definition is_space :: "nat \<Rightarrow> bool" where
  "is_space c =
     ((9 \<le> c \<and> c \<le> 13) \<or> (28 \<le> c \<and> c \<le> 32) \<or> c = 133 \<or> c = 160 \<or> c = 5760 \<or>
      (8192 \<le> c \<and> c \<le> 8202) \<or> c = 8232 \<or> c = 8233 \<or> c = 8239 \<or> c = 8287 \<or> c = 12288)"

definition strip :: "str \<Rightarrow> str" where
  "strip s = rev (dropWhile is_space (rev (dropWhile is_space s)))"

definition validate_name :: "str \<Rightarrow> error + str" where
  "validate_name n = (if strip n = [] then Inl (ValueError InvalidName) else Inr (strip n))"

definition validate_weight :: "rat \<Rightarrow> error + rat" where
  "validate_weight w = (if w \<le> 0 \<or> w > 100 then Inl (ValueError InvalidWeight) else Inr w)"

definition validate_grade :: "rat \<Rightarrow> error + rat" where
  "validate_grade g = (if g < 0 \<or> g > 100 then Inl (ValueError InvalidGrade) else Inr g)"

text \<open>\<^verbatim>\<open>(self.grade * self.weight) / 100.0\<close>: the product is rounded, then the quotient.\<close>

definition calculate_points :: "arith \<Rightarrow> assignment \<Rightarrow> rat" where
  "calculate_points ar self = rnd ar (rnd ar (grade self * weight self) / 100)"

definition Assignment_init :: "arith \<Rightarrow> str \<Rightarrow> rat \<Rightarrow> rat \<Rightarrow> error + assignment" where
  "Assignment_init ar n w g =
     (case validate_name n of
        Inl e \<Rightarrow> Inl e
      | Inr n' \<Rightarrow>
          (case validate_weight w of
             Inl e \<Rightarrow> Inl e
           | Inr w' \<Rightarrow>
               (case validate_grade g of
                  Inl e \<Rightarrow> Inl e
                | Inr g' \<Rightarrow>
                    (let self = \<lparr>name = n', weight = w', grade = g', points = 0\<rparr>
                     in Inr (self\<lparr>points := calculate_points ar self\<rparr>)))))"

definition Assignment_update_grade :: "arith \<Rightarrow> assignment \<Rightarrow> rat \<Rightarrow> error + assignment" where
  "Assignment_update_grade ar self new_grade =
     (case validate_grade new_grade of
        Inl e \<Rightarrow> Inl e
      | Inr g' \<Rightarrow>
          (let self' = self\<lparr>grade := g'\<rparr> in Inr (self'\<lparr>points := calculate_points ar self'\<rparr>)))"

definition update_weight :: "arith \<Rightarrow> assignment \<Rightarrow> rat \<Rightarrow> error + assignment" where
  "update_weight ar self new_weight =
     (case validate_weight new_weight of
        Inl e \<Rightarrow> Inl e
      | Inr w' \<Rightarrow>
          (let self' = self\<lparr>weight := w'\<rparr> in Inr (self'\<lparr>points := calculate_points ar self'\<rparr>)))"

subsection \<open>GPACalculator\<close>

record category_result =
  total_percentage :: rat
  gpa :: rat
  letter_grade :: string
  total_weight :: rat
  weighted_points :: rat

record overall_result =
  overall_percentage :: rat
  overall_gpa :: rat
  overall_letter :: string
  fa_data :: category_result
  sa_data :: category_result

text \<open>
  \<^verbatim>\<open>(total_points / total_weight) * 100\<close>: the quotient is rounded, then the product. The
  clamp that follows is exact.
\<close>

definition calculate_category_gpa ::
  "arith \<Rightarrow> grading_scale \<Rightarrow> assignment list \<Rightarrow> category_result" where
  "calculate_category_gpa ar grading_scale assignments =
     (if assignments = [] then
        \<lparr>total_percentage = 0, gpa = 0, letter_grade = ''N/A'',
         total_weight = 0, weighted_points = 0\<rparr>
      else
        (let total_points = fsum ar (map points assignments);
             total_weight = fsum ar (map weight assignments);
             percentage =
               (if total_weight = 0 then 0
                else rnd ar (rnd ar (total_points / total_weight) * 100));
             percentage = max 0 (min 100 percentage);
             (gpa, letter) = percentage_to_grade grading_scale percentage
         in \<lparr>total_percentage = percentage, gpa = gpa, letter_grade = letter,
             total_weight = total_weight, weighted_points = total_points\<rparr>))"

text \<open>\<^verbatim>\<open>(fa_percentage + sa_percentage) / 2\<close>: the sum is rounded, then the quotient.\<close>

definition calculate_overall_gpa ::
  "arith \<Rightarrow> grading_scale \<Rightarrow> category_result \<Rightarrow> category_result \<Rightarrow> overall_result" where
  "calculate_overall_gpa ar grading_scale fa_result sa_result =
     (let fa_percentage = total_percentage fa_result;
          sa_percentage = total_percentage sa_result;
          overall_percentage =
            (if fa_percentage = 0 \<and> sa_percentage = 0 then 0
             else if fa_percentage = 0 then sa_percentage
             else if sa_percentage = 0 then fa_percentage
             else rnd ar (rnd ar (fa_percentage + sa_percentage) / 2));
          (overall_gpa, overall_letter) = percentage_to_grade grading_scale overall_percentage
      in \<lparr>overall_percentage = overall_percentage, overall_gpa = overall_gpa,
          overall_letter = overall_letter, fa_data = fa_result, sa_data = sa_result\<rparr>)"

section \<open>Properties\<close>

subsection \<open>The two arithmetics\<close>

lemma rnd_exact [simp]: "rnd exact x = x"
  by (simp add: exact_def)

lemma fsum_exact [simp]: "fsum exact xs = sum_list xs"
  by (simp add: exact_def)

lemma rnd_binary64: "rnd binary64 = round64"
  by (simp add: binary64_def)

lemma round64_140: "round64 140 = 140"
  by code_simp

lemma round64_70: "round64 70 = 70"
  by code_simp

subsection \<open>The default scale\<close>

text \<open>
  The constructor succeeds, and prints no coverage warning.
\<close>

lemma validate_initial_scale_binary64: "validate_scale (initial_scale binary64) = Inr False"
  by code_simp

lemma validate_initial_scale_exact: "validate_scale (initial_scale exact) = Inr False"
  by code_simp

lemma GradingScale_init_binary64: "GradingScale_init binary64 = Inr (initial_scale binary64)"
  by (simp add: GradingScale_init_def validate_initial_scale_binary64)

lemma GradingScale_init_exact: "GradingScale_init exact = Inr (initial_scale exact)"
  by (simp add: GradingScale_init_def validate_initial_scale_exact)

lemma find_grade_default_70_binary64: "find_grade (default_scale binary64) 70 = Some (4, ''B'')"
  by code_simp

lemma find_grade_default_70_exact: "find_grade (default_scale exact) 70 = Some (4, ''B'')"
  by code_simp

text \<open>
  C1. The claim: for every percentage in \<open>[0, 100]\<close> the default scale has a band that
  contains it, and \<^verbatim>\<open>percentage_to_grade\<close> returns that band's grade. The default scale
  has a gap between the end of band \<^verbatim>\<open>A\<close> (97.00) and the start of band \<^verbatim>\<open>A+\<close> (98): at
  97.5 no band matches, and the lookup falls through to \<open>(1.0, 'F')\<close>. This is so with
  the bounds as floats and with the bounds as exact decimals.
\<close>

theorem default_scale_gap_97_5:
  "(case GradingScale_init binary64 of
      Inl e \<Rightarrow> False
    | Inr gs \<Rightarrow>
        percentage_to_grade gs (195 / 2) = (1, ''F'') \<and>
        \<not> list_ex (\<lambda>(letter, data). min_b data \<le> 195 / 2 \<and> 195 / 2 \<le> max_b data) (scale gs)) \<and>
   (case GradingScale_init exact of
      Inl e \<Rightarrow> False
    | Inr gs \<Rightarrow>
        percentage_to_grade gs (195 / 2) = (1, ''F'') \<and>
        \<not> list_ex (\<lambda>(letter, data). min_b data \<le> 195 / 2 \<and> 195 / 2 \<le> max_b data) (scale gs))"
  by code_simp

subsection \<open>Grade lookup\<close>

lemma find_grade_None:
  "\<forall>(letter, data) \<in> set sc. \<not> (min_b data \<le> p \<and> p \<le> max_b data) \<Longrightarrow> find_grade sc p = None"
  by (induction sc) auto

text \<open>
  C8. \<^verbatim>\<open>percentage_to_grade\<close> looks up the input clamped to \<open>[0, 100]\<close>: its result is the
  result at the clamped value. If no band of the scale contains the clamped value, the
  result is the fallback \<open>(1.0, 'F')\<close>. The function is total: a lookup miss is a value,
  not an exception.
\<close>

theorem percentage_to_grade_fallback:
  "percentage_to_grade self p = percentage_to_grade self (max 0 (min 100 p)) \<and>
   ((\<forall>(letter, data) \<in> set (scale self).
        \<not> (min_b data \<le> max 0 (min 100 p) \<and> max 0 (min 100 p) \<le> max_b data))
      \<longrightarrow> percentage_to_grade self p = (1, ''F''))"
  by (simp add: percentage_to_grade_def find_grade_None)

text \<open>
  The fallback at an input below 0, on a scale whose only band is \<open>[50, 100]\<close>: the
  clamped value 0 is in no band.
\<close>

theorem percentage_to_grade_fallback_witness:
  "percentage_to_grade
     \<lparr>scale = [(''P'', \<lparr>min_b = 50, max_b = 100, gpa_b = 4\<rparr>)], max_gpa = 5,
      passing_threshold = 50\<rparr> (- 5) = (1, ''F'')"
  by (rule percentage_to_grade_fallback [THEN conjunct2, THEN mp]) simp

subsection \<open>Mutation of the scale\<close>

lemma setitem_setitem: "setitem (setitem sc k v) k w = setitem sc k w"
  by (induction sc k v rule: setitem.induct) auto

lemma map_of_setitem: "map_of (setitem sc k v) = (map_of sc)(k \<mapsto> v)"
  by (induction sc k v rule: setitem.induct) (auto simp: fun_eq_iff)

lemma check_bands_setitem_bad:
  "check_bands mg (setitem sc k v) = None \<Longrightarrow> min_b w > max_b w \<Longrightarrow>
   check_bands mg (setitem sc k w) = Some (ValueError (InvalidRange k))"
  by (induction sc k v rule: setitem.induct) (auto split: if_splits)

lemma validate_scale_Inr_check:
  "validate_scale gs = Inr w \<Longrightarrow> check_bands (max_gpa gs) (scale gs) = None"
  by (auto simp: validate_scale_def split: option.splits list.splits)

lemma update_default_Aplus:
  "GradingScale_update_grade (initial_scale binary64) ''A+'' 98 100 5 =
     (Inr False, initial_scale binary64)"
  by code_simp

text \<open>
  C2, as claimed: after \<^verbatim>\<open>update_grade('A+', 98, 100, 5.0)\<close> succeeds,
  \<^verbatim>\<open>update_grade('A+', 50, 40, 5.0)\<close> fails and leaves the band \<open>(98, 100, 5.0)\<close> stored. On
  the default scale the second call does raise, but the band stored under \<^verbatim>\<open>A+\<close> is no
  longer \<open>(98, 100, 5.0)\<close>: the method stores before it validates.
\<close>

theorem update_grade_not_atomic:
  "fst (GradingScale_update_grade (initial_scale binary64) ''A+'' 98 100 5) = Inr False \<and>
   fst (GradingScale_update_grade
          (snd (GradingScale_update_grade (initial_scale binary64) ''A+'' 98 100 5))
          ''A+'' 50 40 5) = Inl (ValueError (InvalidRange ''A+'')) \<and>
   map_of (scale (snd (GradingScale_update_grade
          (snd (GradingScale_update_grade (initial_scale binary64) ''A+'' 98 100 5))
          ''A+'' 50 40 5))) ''A+''
     \<noteq> Some \<lparr>min_b = 98, max_b = 100, gpa_b = 5\<rparr>"
  by code_simp

text \<open>
  C2, amended. After \<^verbatim>\<open>update_grade('A+', 98, 100, 5.0)\<close> has succeeded on any scale, the
  call \<^verbatim>\<open>update_grade('A+', 50, 40, 5.0)\<close> raises the validation error for the range of
  \<^verbatim>\<open>A+\<close>, and the scale then holds the new band \<open>(50, 40, 5.0)\<close> under \<^verbatim>\<open>A+\<close>; the bands
  under all other letters are unchanged.
\<close>

theorem update_grade_invalid_band_stored:
  assumes "GradingScale_update_grade gs ''A+'' 98 100 5 = (Inr w, gs1)"
  shows "GradingScale_update_grade gs1 ''A+'' 50 40 5 =
           (Inl (ValueError (InvalidRange ''A+'')),
            gs\<lparr>scale := setitem (scale gs) ''A+'' \<lparr>min_b = 50, max_b = 40, gpa_b = 5\<rparr>\<rparr>) \<and>
         map_of (scale (snd (GradingScale_update_grade gs1 ''A+'' 50 40 5))) ''A+'' =
           Some \<lparr>min_b = 50, max_b = 40, gpa_b = 5\<rparr> \<and>
         (\<forall>letter. letter \<noteq> ''A+'' \<longrightarrow>
            map_of (scale (snd (GradingScale_update_grade gs1 ''A+'' 50 40 5))) letter =
            map_of (scale gs1) letter)"
proof -
  let ?b1 = "\<lparr>min_b = 98, max_b = 100, gpa_b = 5\<rparr>"
  let ?b2 = "\<lparr>min_b = 50, max_b = 40, gpa_b = 5\<rparr>"
  from assms have gs1: "gs1 = gs\<lparr>scale := setitem (scale gs) ''A+'' ?b1\<rparr>"
    and v: "validate_scale gs1 = Inr w"
    by (auto simp: GradingScale_update_grade_def Let_def)
  from validate_scale_Inr_check [OF v]
  have "check_bands (max_gpa gs) (setitem (scale gs) ''A+'' ?b1) = None"
    by (simp add: gs1)
  then have "check_bands (max_gpa gs) (setitem (scale gs) ''A+'' ?b2) =
      Some (ValueError (InvalidRange ''A+''))"
    by (rule check_bands_setitem_bad) simp
  then show ?thesis
    by (simp add: GradingScale_update_grade_def Let_def gs1 setitem_setitem validate_scale_def
        map_of_setitem)
qed

text \<open>
  On the default scale, where the first update succeeds and changes nothing.
\<close>

theorem update_grade_invalid_band_stored_witness:
  "GradingScale_update_grade (initial_scale binary64) ''A+'' 50 40 5 =
     (Inl (ValueError (InvalidRange ''A+'')),
      (initial_scale binary64)
        \<lparr>scale := setitem (scale (initial_scale binary64)) ''A+''
                    \<lparr>min_b = 50, max_b = 40, gpa_b = 5\<rparr>\<rparr>)"
  using update_grade_invalid_band_stored [OF update_default_Aplus] by simp

subsection \<open>Importing a scale\<close>

lemma all_keys_in_object:
  "all_keys_in keys (JObject kvs) = Inr (list_all (\<lambda>key. key \<in> set (map fst kvs)) keys)"
  by (induction keys) auto

lemma check_structure_objects:
  assumes "\<forall>(letter, data) \<in> set imported. is_object data"
    and "\<exists>(letter, data) \<in> set imported. all_keys_in [''min'', ''max'', ''gpa''] data = Inr False"
  shows "\<exists>letter. check_structure imported = Some (ValueError (InvalidStructure letter))"
  using assms
proof (induction imported rule: check_structure.induct)
  case 1
  then show ?case by simp
next
  case (2 letter data rest)
  from "2.prems"(1) obtain kvs where d: "data = JObject kvs"
    by (cases data) auto
  show ?case
  proof (cases "all_keys_in [''min'', ''max'', ''gpa''] data")
    case (Inl e)
    with d show ?thesis by (simp only: all_keys_in_object) simp
  next
    case (Inr b)
    show ?thesis
    proof (cases b)
      case True
      with Inr "2.prems" have "\<exists>(letter, data) \<in> set rest.
          all_keys_in [''min'', ''max'', ''gpa''] data = Inr False"
        by auto
      moreover from "2.prems"(1) have "\<forall>(letter, data) \<in> set rest. is_object data"
        by auto
      ultimately have "\<exists>letter. check_structure rest = Some (ValueError (InvalidStructure letter))"
        using "2.IH" [OF Inr] True by simp
      with Inr True show ?thesis by simp
    next
      case False
      with Inr show ?thesis by simp
    qed
  qed
qed

lemma field_of_Some: "field_of data key = Some r \<Longrightarrow> \<exists>kvs. data = JObject kvs \<and> key \<in> set (map fst kvs)"
  by (cases data) (auto split: option.splits dest: map_of_SomeD intro: rev_image_eqI)

lemma band_of_keys:
  assumes "band_of data = Some b"
  shows "all_keys_in [''min'', ''max'', ''gpa''] data = Inr True"
proof -
  from assms obtain mn mx g where f: "field_of data ''min'' = Some mn"
      "field_of data ''max'' = Some mx" "field_of data ''gpa'' = Some g"
    by (auto simp: band_of_def split: option.splits)
  from field_of_Some [OF f(1)] obtain kvs where d: "data = JObject kvs" by auto
  from f d field_of_Some [of data] have "''min'' \<in> set (map fst kvs)"
    "''max'' \<in> set (map fst kvs)" "''gpa'' \<in> set (map fst kvs)"
    by blast+
  with d show ?thesis by (simp only: all_keys_in_object) simp
qed

lemma scale_of_structure: "scale_of imported = Some sc \<Longrightarrow> check_structure imported = None"
  by (induction imported arbitrary: sc rule: scale_of.induct)
     (auto split: option.splits simp: band_of_keys simp del: all_keys_in.simps)

lemma check_bands_None:
  "(check_bands mg sc = None) =
   (\<forall>(letter, data) \<in> set sc. min_b data \<le> max_b data \<and> 0 \<le> gpa_b data \<and> gpa_b data \<le> mg)"
  by (induction mg sc rule: check_bands.induct) auto

lemma check_bands_Some:
  "check_bands mg sc = Some e \<Longrightarrow> \<exists>v. e = ValueError v"
  by (induction mg sc rule: check_bands.induct) (auto split: if_splits)

lemma leave_ValueError [simp]: "leave (ValueError v) = Reported (ValueError v)"
  by (simp add: leave_def handled_def)

lemma import_scale_structure:
  "check_structure imported = Some e \<Longrightarrow>
   import_scale self (Loaded (JObject imported)) = Some (leave e, self)"
  by (simp add: import_scale_def)

lemma import_scale_range:
  assumes "scale_of imported = Some sc"
    and "check_bands (max_gpa self) sc = Some e"
  shows "import_scale self (Loaded (JObject imported)) = Some (leave e, self\<lparr>scale := sc\<rparr>)"
  using assms scale_of_structure [OF assms(1)]
  by (simp add: import_scale_def validate_scale_def Let_def)

text \<open>
  The paths on which an exception leaves \<^verbatim>\<open>import_scale\<close>: a document that is not a
  dictionary, a band that is a number, \<^verbatim>\<open>null\<close> or a \<^verbatim>\<open>bool\<close> (the structure check applies
  \<^verbatim>\<open>in\<close> to it), and the empty dictionary (the validation indexes an empty list). On the
  first four the scale is unchanged; on the last it is empty.
\<close>

lemma import_scale_not_a_dict:
  "\<not> is_object v \<Longrightarrow> import_scale self (Loaded v) = Some (Escaped AttributeError, self)"
  by (cases v) (simp_all add: import_scale_def leave_def handled_def)

lemma import_scale_band_number:
  "import_scale self (Loaded (JObject ((letter, JNumber r) # rest))) = Some (Escaped TypeError, self)"
  by (simp add: import_scale_def leave_def handled_def)

lemma import_scale_band_null:
  "import_scale self (Loaded (JObject ((letter, JNull) # rest))) = Some (Escaped TypeError, self)"
  by (simp add: import_scale_def leave_def handled_def)

lemma import_scale_band_bool:
  "import_scale self (Loaded (JObject ((letter, JBool b) # rest))) = Some (Escaped TypeError, self)"
  by (simp add: import_scale_def leave_def handled_def)

lemma import_scale_empty_object:
  "import_scale self (Loaded (JObject [])) = Some (Escaped IndexError, self\<lparr>scale := []\<rparr>)"
  by (simp add: import_scale_def validate_scale_def all_ranges_of_def leave_def handled_def)

text \<open>
  C3, as claimed: whenever \<^verbatim>\<open>import_scale\<close> fails, the scale held before is unchanged. A
  document with the three keys and \<^verbatim>\<open>min > max\<close> is reported as an error, but the scale
  of the object is then the imported one: the method assigns before it validates.
\<close>

theorem import_scale_replaces_scale:
  "import_scale (initial_scale binary64)
     (Loaded (JObject [(''A+'', JObject [(''min'', JNumber 50), (''max'', JNumber 40),
                                         (''gpa'', JNumber 5)])])) =
     Some (Reported (ValueError (InvalidRange ''A+'')),
           \<lparr>scale = [(''A+'', \<lparr>min_b = 50, max_b = 40, gpa_b = 5\<rparr>)], max_gpa = 5,
            passing_threshold = 50\<rparr>) \<and>
   \<lparr>scale = [(''A+'', \<lparr>min_b = 50, max_b = 40, gpa_b = 5\<rparr>)], max_gpa = 5,
    passing_threshold = 50\<rparr> \<noteq> initial_scale binary64"
  by code_simp

text \<open>
  C3, amended. Malformed JSON is reported and the object is unchanged. For a document
  that is an object whose bands are all objects, one of them without one of the keys
  \<^verbatim>\<open>min\<close>, \<^verbatim>\<open>max\<close>, \<^verbatim>\<open>gpa\<close>: the error is reported (invalid structure) and the object is
  unchanged. For a document that is an object whose bands are all objects with numeric
  \<^verbatim>\<open>min\<close>, \<^verbatim>\<open>max\<close> and \<^verbatim>\<open>gpa\<close>, one of them failing the range validation: the error is
  reported, no exception leaves the method, and the scale of the object has been replaced
  by the imported one. Nothing is said of other documents.
\<close>

theorem import_scale_failures:
  "import_scale self DecodeError = Some (Reported JSONDecodeError, self) \<and>
   ((\<forall>(letter, data) \<in> set imported. is_object data) \<and>
    (\<exists>(letter, data) \<in> set imported.
        all_keys_in [''min'', ''max'', ''gpa''] data = Inr False) \<longrightarrow>
      (\<exists>letter. import_scale self (Loaded (JObject imported)) =
         Some (Reported (ValueError (InvalidStructure letter)), self))) \<and>
   (scale_of imported = Some sc \<and>
    (\<exists>(letter, b) \<in> set sc.
        min_b b > max_b b \<or> gpa_b b > max_gpa self \<or> gpa_b b < 0) \<longrightarrow>
      (\<exists>v. import_scale self (Loaded (JObject imported)) =
         Some (Reported (ValueError v), self\<lparr>scale := sc\<rparr>)))"
proof (intro conjI impI)
  show "import_scale self DecodeError = Some (Reported JSONDecodeError, self)"
    by (simp add: import_scale_def)
next
  assume a: "(\<forall>(letter, data) \<in> set imported. is_object data) \<and>
    (\<exists>(letter, data) \<in> set imported.
        all_keys_in [''min'', ''max'', ''gpa''] data = Inr False)"
  then obtain letter where
    "check_structure imported = Some (ValueError (InvalidStructure letter))"
    using check_structure_objects [of imported] by blast
  from import_scale_structure [OF this]
  show "\<exists>letter. import_scale self (Loaded (JObject imported)) =
         Some (Reported (ValueError (InvalidStructure letter)), self)"
    by auto
next
  assume a: "scale_of imported = Some sc \<and>
    (\<exists>(letter, b) \<in> set sc.
        min_b b > max_b b \<or> gpa_b b > max_gpa self \<or> gpa_b b < 0)"
  then have "check_bands (max_gpa self) sc \<noteq> None"
    by (simp only: check_bands_None) fastforce
  then obtain e where e: "check_bands (max_gpa self) sc = Some e" by auto
  from a have s: "scale_of imported = Some sc" by simp
  from check_bands_Some [OF e] import_scale_range [OF s e]
  show "\<exists>v. import_scale self (Loaded (JObject imported)) =
         Some (Reported (ValueError v), self\<lparr>scale := sc\<rparr>)"
    by auto
qed

text \<open>
  On the default scale: malformed text, a band without \<^verbatim>\<open>max\<close>, and a band with
  \<^verbatim>\<open>min > max\<close>.
\<close>

theorem import_scale_failures_witness:
  "import_scale (initial_scale binary64) DecodeError =
     Some (Reported JSONDecodeError, initial_scale binary64) \<and>
   (\<exists>letter. import_scale (initial_scale binary64)
       (Loaded (JObject [(''A+'', JObject [(''min'', JNumber 50), (''gpa'', JNumber 5)])])) =
       Some (Reported (ValueError (InvalidStructure letter)), initial_scale binary64)) \<and>
   (\<exists>v. import_scale (initial_scale binary64)
           (Loaded (JObject [(''A+'', JObject [(''min'', JNumber 50), (''max'', JNumber 40),
                                               (''gpa'', JNumber 5)])])) =
       Some (Reported (ValueError v),
             (initial_scale binary64)
               \<lparr>scale := [(''A+'', \<lparr>min_b = 50, max_b = 40, gpa_b = 5\<rparr>)]\<rparr>))"
  using import_scale_failures [of "initial_scale binary64"
      "[(''A+'', JObject [(''min'', JNumber 50), (''gpa'', JNumber 5)])]"]
    import_scale_failures [of "initial_scale binary64"
      "[(''A+'', JObject [(''min'', JNumber 50), (''max'', JNumber 40), (''gpa'', JNumber 5)])]"
      "[(''A+'', \<lparr>min_b = 50, max_b = 40, gpa_b = 5\<rparr>)]"]
  by (simp add: band_of_def)

subsection \<open>Assignment construction\<close>




text \<open>
  What the constructor establishes: the object invariant of an assignment.
\<close>

lemma Assignment_init_points:
  "Assignment_init ar n w g = Inr a \<Longrightarrow>
   points a = calculate_points ar a \<and> 0 < weight a \<and> weight a \<le> 100 \<and>
   0 \<le> grade a \<and> grade a \<le> 100 \<and> name a = strip n \<and> name a \<noteq> []"
  by (auto simp: Assignment_init_def validate_name_def validate_weight_def validate_grade_def
      calculate_points_def Let_def split: if_splits)




subsection \<open>Category and overall results\<close>

text \<open>
  C7. For the empty assignment collection, \<^verbatim>\<open>calculate_category_gpa\<close> returns the
  zero-valued result: percentage 0, GPA 0, letter \<^verbatim>\<open>N/A\<close>, weight 0, points 0, whatever
  the grading scale.
\<close>

theorem category_gpa_empty:
  "calculate_category_gpa ar gs [] =
     \<lparr>total_percentage = 0, gpa = 0, letter_grade = ''N/A'',
      total_weight = 0, weighted_points = 0\<rparr>"
  by (simp add: calculate_category_gpa_def)

lemma map_points_consistent:
  "\<forall>a\<in>set assignments. points a = calculate_points ar a \<Longrightarrow>
   map points assignments =
     map (\<lambda>a. rnd ar (rnd ar (grade a * weight a) / 100)) assignments"
  by (simp add: calculate_points_def)

text \<open>
  C6, as claimed: the category percentage is the value of
  \<open>(\<Sum> w\<^sub>i * g\<^sub>i / 100) / (\<Sum> w\<^sub>i) * 100\<close>. For one assignment of weight 3 and grade 55 that
  value is 55. The program computes the points \<open>1.65\<close> as a float, and from them
  \<open>1.65 / 3.0 * 100\<close>, which is \<open>55 - 2\<^sup>-\<^sup>4\<^sup>7\<close> (printed 54.99999999999999).
\<close>

theorem category_percentage_not_exact:
  "Assignment_init binary64 (code_points ''Q1'') 3 55 =
     Inr \<lparr>name = code_points ''Q1'', weight = 3, grade = 55,
          points = 3715469692580659 / 2251799813685248\<rparr> \<and>
   total_percentage (calculate_category_gpa binary64 (initial_scale binary64)
     [\<lparr>name = code_points ''Q1'', weight = 3, grade = 55,
       points = 3715469692580659 / 2251799813685248\<rparr>]) = 55 - 1 / 2 ^ 47 \<and>
   (3 * 55 / 100) / 3 * 100 = (55 :: rat)"
  by code_simp

text \<open>
  C6, amended. For a non-empty list of assignments whose points are the derived attribute
  (as the constructor and the update methods leave it), the category percentage is the
  formula \<open>(\<Sum> w\<^sub>i * g\<^sub>i / 100) / (\<Sum> w\<^sub>i) * 100\<close> as the arithmetic of the program
  evaluates it: each product and each quotient rounded, the sums as \<^verbatim>\<open>sum\<close> computes
  them, then the clamp to \<open>[0, 100]\<close>. It is 0 when the total weight is 0, and it always
  lies in \<open>[0, 100]\<close>. In exact arithmetic this is the value of the formula.
\<close>

theorem category_percentage_formula:
  assumes "assignments \<noteq> []"
    and "\<forall>a\<in>set assignments. points a = calculate_points ar a"
  shows "(0 < fsum ar (map weight assignments) \<longrightarrow>
            total_percentage (calculate_category_gpa ar gs assignments) =
              max 0 (min 100 (rnd ar (rnd ar
                (fsum ar (map (\<lambda>a. rnd ar (rnd ar (grade a * weight a) / 100)) assignments) /
                 fsum ar (map weight assignments)) * 100)))) \<and>
         (fsum ar (map weight assignments) = 0 \<longrightarrow>
            total_percentage (calculate_category_gpa ar gs assignments) = 0) \<and>
         0 \<le> total_percentage (calculate_category_gpa ar gs assignments) \<and>
         total_percentage (calculate_category_gpa ar gs assignments) \<le> 100"
proof -
  have P: "map points assignments =
      map (\<lambda>a. rnd ar (rnd ar (grade a * weight a) / 100)) assignments"
    by (rule map_points_consistent [OF assms(2)])
  show ?thesis
    using assms(1) by (simp add: calculate_category_gpa_def Let_def case_prod_beta P)
qed

text \<open>
  In binary64, two assignments, weights 20 and 30, grades 80 and 60: 68. In exact
  arithmetic, weight 3 and grade 55: 55. One assignment of weight 0: percentage 0.
\<close>

theorem category_percentage_formula_witness:
  "total_percentage (calculate_category_gpa binary64 (initial_scale binary64)
      [\<lparr>name = code_points ''Q1'', weight = 20, grade = 80, points = 16\<rparr>,
       \<lparr>name = code_points ''Q2'', weight = 30, grade = 60, points = 18\<rparr>]) = 68 \<and>
   total_percentage (calculate_category_gpa exact (initial_scale exact)
      [\<lparr>name = code_points ''Q1'', weight = 3, grade = 55, points = 165 / 100\<rparr>]) = 55 \<and>
   total_percentage (calculate_category_gpa binary64 (initial_scale binary64)
      [\<lparr>name = code_points ''Q0'', weight = 0, grade = 50, points = 0\<rparr>]) = 0"
proof -
  let ?two = "[\<lparr>name = code_points ''Q1'', weight = 20, grade = 80, points = 16\<rparr>,
       \<lparr>name = code_points ''Q2'', weight = 30, grade = 60, points = 18\<rparr>]"
  let ?one = "[\<lparr>name = code_points ''Q1'', weight = 3, grade = 55, points = 165 / 100\<rparr>]"
  let ?zero = "[\<lparr>name = code_points ''Q0'', weight = 0, grade = 50, points = 0\<rparr>]"
  have two: "\<forall>a\<in>set ?two. points a = calculate_points binary64 a"
    "0 < fsum binary64 (map weight ?two)"
    "max 0 (min 100 (rnd binary64 (rnd binary64
        (fsum binary64 (map (\<lambda>a. rnd binary64 (rnd binary64 (grade a * weight a) / 100)) ?two) /
         fsum binary64 (map weight ?two)) * 100))) = 68"
    by code_simp+
  have one: "\<forall>a\<in>set ?one. points a = calculate_points exact a"
    "0 < fsum exact (map weight ?one)"
    "max 0 (min 100 (rnd exact (rnd exact
        (fsum exact (map (\<lambda>a. rnd exact (rnd exact (grade a * weight a) / 100)) ?one) /
         fsum exact (map weight ?one)) * 100))) = 55"
    by code_simp+
  have zero: "\<forall>a\<in>set ?zero. points a = calculate_points binary64 a"
    "fsum binary64 (map weight ?zero) = 0"
    by code_simp+
  from category_percentage_formula [OF _ two(1), of "initial_scale binary64"] two(2)
  have "total_percentage (calculate_category_gpa binary64 (initial_scale binary64) ?two) =
      max 0 (min 100 (rnd binary64 (rnd binary64
        (fsum binary64 (map (\<lambda>a. rnd binary64 (rnd binary64 (grade a * weight a) / 100)) ?two) /
         fsum binary64 (map weight ?two)) * 100)))"
    by blast
  with two(3) have a: "total_percentage (calculate_category_gpa binary64 (initial_scale binary64) ?two) = 68"
    by (simp only:)
  from category_percentage_formula [OF _ one(1), of "initial_scale exact"] one(2)
  have "total_percentage (calculate_category_gpa exact (initial_scale exact) ?one) =
      max 0 (min 100 (rnd exact (rnd exact
        (fsum exact (map (\<lambda>a. rnd exact (rnd exact (grade a * weight a) / 100)) ?one) /
         fsum exact (map weight ?one)) * 100)))"
    by blast
  with one(3) have b: "total_percentage (calculate_category_gpa exact (initial_scale exact) ?one) = 55"
    by (simp only:)
  from category_percentage_formula [OF _ zero(1), of "initial_scale binary64"] zero(2)
  have c: "total_percentage (calculate_category_gpa binary64 (initial_scale binary64) ?zero) = 0"
    by blast
  from a b c show ?thesis by (intro conjI)
qed

text \<open>
  C5, as claimed: with both percentages nonzero the overall percentage is their
  arithmetic mean. For 30.0 and 99.98 (the float) the program returns the float sum
  halved, which is \<open>2\<^sup>-\<^sup>4\<^sup>7\<close> above the mean of the two (printed 64.99000000000001).
\<close>

theorem overall_gpa_mean_not_exact:
  "overall_percentage (calculate_overall_gpa binary64 (initial_scale binary64)
      \<lparr>total_percentage = 30, gpa = 1, letter_grade = ''F'', total_weight = 100,
       weighted_points = 30\<rparr>
      \<lparr>total_percentage = round64 (9998 / 100), gpa = 5, letter_grade = ''A+'',
       total_weight = 100, weighted_points = round64 (9998 / 100)\<rparr>)
     \<noteq> (30 + round64 (9998 / 100)) / 2 \<and>
   overall_percentage (calculate_overall_gpa binary64 (initial_scale binary64)
      \<lparr>total_percentage = 30, gpa = 1, letter_grade = ''F'', total_weight = 100,
       weighted_points = 30\<rparr>
      \<lparr>total_percentage = round64 (9998 / 100), gpa = 5, letter_grade = ''A+'',
       total_weight = 100, weighted_points = round64 (9998 / 100)\<rparr>)
     = (30 + round64 (9998 / 100)) / 2 + 1 / 2 ^ 47"
  by code_simp

text \<open>
  C5, amended. \<^verbatim>\<open>calculate_overall_gpa\<close>: both category percentages 0 give 0; exactly
  one nonzero gives that one; otherwise the overall percentage is the mean as the
  arithmetic of the program computes it, the sum of the two rounded and then halved. The
  overall GPA and letter are the scale's grade for the overall percentage. With the
  summative category absent (the empty category result), a formative 80 gives 80. With
  the default scale, 80 and 60 give 70, letter \<^verbatim>\<open>B\<close>, GPA 4.0.
\<close>

theorem overall_gpa_combination:
  "(total_percentage fa = 0 \<and> total_percentage sa = 0 \<longrightarrow>
      overall_percentage (calculate_overall_gpa ar gs fa sa) = 0) \<and>
   (total_percentage fa \<noteq> 0 \<and> total_percentage sa = 0 \<longrightarrow>
      overall_percentage (calculate_overall_gpa ar gs fa sa) = total_percentage fa) \<and>
   (total_percentage fa = 0 \<and> total_percentage sa \<noteq> 0 \<longrightarrow>
      overall_percentage (calculate_overall_gpa ar gs fa sa) = total_percentage sa) \<and>
   (total_percentage fa \<noteq> 0 \<and> total_percentage sa \<noteq> 0 \<longrightarrow>
      overall_percentage (calculate_overall_gpa ar gs fa sa) =
        rnd ar (rnd ar (total_percentage fa + total_percentage sa) / 2)) \<and>
   (overall_gpa (calculate_overall_gpa ar gs fa sa),
    overall_letter (calculate_overall_gpa ar gs fa sa)) =
      percentage_to_grade gs (overall_percentage (calculate_overall_gpa ar gs fa sa)) \<and>
   (total_percentage fa = 80 \<longrightarrow>
      overall_percentage (calculate_overall_gpa ar gs fa (calculate_category_gpa ar gs [])) = 80) \<and>
   (GradingScale_init binary64 = Inr gs \<and> total_percentage fa = 80 \<and> total_percentage sa = 60 \<longrightarrow>
      overall_percentage (calculate_overall_gpa binary64 gs fa sa) = 70 \<and>
      overall_letter (calculate_overall_gpa binary64 gs fa sa) = ''B'' \<and>
      overall_gpa (calculate_overall_gpa binary64 gs fa sa) = 4) \<and>
   (GradingScale_init exact = Inr gs \<and> total_percentage fa = 80 \<and> total_percentage sa = 60 \<longrightarrow>
      overall_percentage (calculate_overall_gpa exact gs fa sa) = 70 \<and>
      overall_letter (calculate_overall_gpa exact gs fa sa) = ''B'' \<and>
      overall_gpa (calculate_overall_gpa exact gs fa sa) = 4)"
  by (auto simp add: calculate_overall_gpa_def calculate_category_gpa_def Let_def case_prod_beta
      GradingScale_init_binary64 GradingScale_init_exact initial_scale_def percentage_to_grade_def
      find_grade_default_70_binary64 find_grade_default_70_exact rnd_binary64 round64_140
      round64_70)

text \<open>
  The cases on the default scale, in binary64: 80 and 60; 80 alone; 60 alone; neither.
\<close>

theorem overall_gpa_combination_witness:
  "overall_percentage (calculate_overall_gpa binary64 (initial_scale binary64)
      \<lparr>total_percentage = 80, gpa = 47 / 10, letter_grade = ''A-'', total_weight = 100, weighted_points = 80\<rparr>
      \<lparr>total_percentage = 60, gpa = 33 / 10, letter_grade = ''C+'', total_weight = 100, weighted_points = 60\<rparr>) = 70 \<and>
   overall_letter (calculate_overall_gpa binary64 (initial_scale binary64)
      \<lparr>total_percentage = 80, gpa = 47 / 10, letter_grade = ''A-'', total_weight = 100, weighted_points = 80\<rparr>
      \<lparr>total_percentage = 60, gpa = 33 / 10, letter_grade = ''C+'', total_weight = 100, weighted_points = 60\<rparr>) = ''B'' \<and>
   overall_gpa (calculate_overall_gpa binary64 (initial_scale binary64)
      \<lparr>total_percentage = 80, gpa = 47 / 10, letter_grade = ''A-'', total_weight = 100, weighted_points = 80\<rparr>
      \<lparr>total_percentage = 60, gpa = 33 / 10, letter_grade = ''C+'', total_weight = 100, weighted_points = 60\<rparr>) = 4 \<and>
   overall_percentage (calculate_overall_gpa binary64 (initial_scale binary64)
      \<lparr>total_percentage = 80, gpa = 47 / 10, letter_grade = ''A-'', total_weight = 100, weighted_points = 80\<rparr>
      (calculate_category_gpa binary64 (initial_scale binary64) [])) = 80 \<and>
   overall_percentage (calculate_overall_gpa binary64 (initial_scale binary64)
      (calculate_category_gpa binary64 (initial_scale binary64) [])
      \<lparr>total_percentage = 60, gpa = 33 / 10, letter_grade = ''C+'', total_weight = 100, weighted_points = 60\<rparr>) = 60 \<and>
   overall_percentage (calculate_overall_gpa binary64 (initial_scale binary64)
      (calculate_category_gpa binary64 (initial_scale binary64) [])
      (calculate_category_gpa binary64 (initial_scale binary64) [])) = 0"
  using
    overall_gpa_combination [where ar = binary64 and gs = "initial_scale binary64"
      and fa = "\<lparr>total_percentage = 80, gpa = 47 / 10, letter_grade = ''A-'', total_weight = 100, weighted_points = 80\<rparr>"
      and sa = "\<lparr>total_percentage = 60, gpa = 33 / 10, letter_grade = ''C+'', total_weight = 100, weighted_points = 60\<rparr>"]
    overall_gpa_combination [where ar = binary64 and gs = "initial_scale binary64"
      and fa = "\<lparr>total_percentage = 80, gpa = 47 / 10, letter_grade = ''A-'', total_weight = 100, weighted_points = 80\<rparr>"
      and sa = "calculate_category_gpa binary64 (initial_scale binary64) []"]
    overall_gpa_combination [where ar = binary64 and gs = "initial_scale binary64"
      and fa = "calculate_category_gpa binary64 (initial_scale binary64) []"
      and sa = "\<lparr>total_percentage = 60, gpa = 33 / 10, letter_grade = ''C+'', total_weight = 100, weighted_points = 60\<rparr>"]
    overall_gpa_combination [where ar = binary64 and gs = "initial_scale binary64"
      and fa = "calculate_category_gpa binary64 (initial_scale binary64) []"
      and sa = "calculate_category_gpa binary64 (initial_scale binary64) []"]
  by (simp add: GradingScale_init_binary64 category_gpa_empty)

text \<open>
  C9. \<^verbatim>\<open>calculate_overall_gpa\<close> is symmetric in its two category results: swapping them
  leaves the overall percentage, GPA and letter unchanged, in either arithmetic.
\<close>

theorem overall_gpa_symmetric:
  "overall_percentage (calculate_overall_gpa ar gs a b) =
     overall_percentage (calculate_overall_gpa ar gs b a) \<and>
   overall_gpa (calculate_overall_gpa ar gs a b) = overall_gpa (calculate_overall_gpa ar gs b a) \<and>
   overall_letter (calculate_overall_gpa ar gs a b) =
     overall_letter (calculate_overall_gpa ar gs b a)"
  by (simp add: calculate_overall_gpa_def Let_def case_prod_beta add.commute)

lemma list_all2_update_weight:
  assumes "list_all2 (\<lambda>a a'. update_weight exact a (k * weight a) = Inr a') as as'"
    and "\<forall>a\<in>set as. points a = calculate_points exact a"
  shows "sum_list (map weight as') = k * sum_list (map weight as) \<and>
         sum_list (map points as') = k * sum_list (map points as)"
  using assms
proof (induction rule: list_all2_induct)
  case Nil
  then show ?case by simp
next
  case (Cons a as a' as')
  from Cons.hyps(1) have "weight a' = k * weight a" "points a' = k * points a"
    using Cons.prems
    by (auto simp: update_weight_def validate_weight_def calculate_points_def Let_def split: if_splits)
  with Cons show ?case by (simp add: algebra_simps)
qed

text \<open>
  C10. Uniform weight scaling, in exact arithmetic. Take a non-empty list of assignments
  with positive total weight and consistent points, and a factor \<open>k > 0\<close> for which every
  \<^verbatim>\<open>update_weight(k * weight)\<close> succeeds (each scaled weight stays in \<open>(0, 100]\<close>). The
  category result of the scaled list has the same percentage, GPA and letter.
\<close>

theorem category_gpa_weight_scaling:
  assumes "assignments \<noteq> []"
    and "0 < sum_list (map weight assignments)"
    and "0 < k"
    and "\<forall>a\<in>set assignments. points a = calculate_points exact a"
    and "list_all2 (\<lambda>a a'. update_weight exact a (k * weight a) = Inr a') assignments scaled"
  shows "total_percentage (calculate_category_gpa exact gs scaled) =
           total_percentage (calculate_category_gpa exact gs assignments) \<and>
         gpa (calculate_category_gpa exact gs scaled) =
           gpa (calculate_category_gpa exact gs assignments) \<and>
         letter_grade (calculate_category_gpa exact gs scaled) =
           letter_grade (calculate_category_gpa exact gs assignments)"
proof -
  from assms(5) have len: "length scaled = length assignments"
    by (simp add: list_all2_lengthD)
  with assms(1) have ne: "scaled \<noteq> []" by auto
  from list_all2_update_weight [OF assms(5) assms(4)]
  have W: "sum_list (map weight scaled) = k * sum_list (map weight assignments)"
    and P: "sum_list (map points scaled) = k * sum_list (map points assignments)"
    by simp_all
  show ?thesis
    using assms(1,2,3) ne by (simp add: calculate_category_gpa_def Let_def case_prod_beta W P)
qed

text \<open>
  Weights 20 and 30 doubled to 40 and 60.
\<close>

theorem category_gpa_weight_scaling_witness:
  "total_percentage (calculate_category_gpa exact (initial_scale exact)
      [\<lparr>name = code_points ''Q1'', weight = 40, grade = 80, points = 32\<rparr>,
       \<lparr>name = code_points ''Q2'', weight = 60, grade = 60, points = 36\<rparr>]) =
   total_percentage (calculate_category_gpa exact (initial_scale exact)
      [\<lparr>name = code_points ''Q1'', weight = 20, grade = 80, points = 16\<rparr>,
       \<lparr>name = code_points ''Q2'', weight = 30, grade = 60, points = 18\<rparr>])"
  using category_gpa_weight_scaling [where gs = "initial_scale exact" and k = 2
      and assignments = "[\<lparr>name = code_points ''Q1'', weight = 20, grade = 80, points = 16\<rparr>,
                          \<lparr>name = code_points ''Q2'', weight = 30, grade = 60, points = 18\<rparr>]"
      and scaled = "[\<lparr>name = code_points ''Q1'', weight = 40, grade = 80, points = 32\<rparr>,
                     \<lparr>name = code_points ''Q2'', weight = 60, grade = 60, points = 36\<rparr>]"]
  by (simp add: update_weight_def validate_weight_def calculate_points_def)

end
